theory Spec2Isabelle
  imports Complex_Main
begin

section \<open>JavaScript numbers\<close>

text \<open>
  Every coordinate of the program is a JavaScript \<^verbatim>\<open>number\<close>. The model keeps the three
  non-finite values of that type, because the program divides without a check; a finite value
  is a real number, computed exactly (rounding and the sign of zero are left out).
\<close>

datatype number = Fin real | PInf | NInf | NaN

fun jneg :: "number \<Rightarrow> number" where
  "jneg (Fin a) = Fin (- a)"
| "jneg PInf = NInf"
| "jneg NInf = PInf"
| "jneg NaN = NaN"

fun jadd :: "number \<Rightarrow> number \<Rightarrow> number" where
  "jadd (Fin a) (Fin b) = Fin (a + b)"
| "jadd NaN b = NaN"
| "jadd a NaN = NaN"
| "jadd PInf NInf = NaN"
| "jadd NInf PInf = NaN"
| "jadd PInf b = PInf"
| "jadd a PInf = PInf"
| "jadd NInf b = NInf"
| "jadd a NInf = NInf"

definition jsub :: "number \<Rightarrow> number \<Rightarrow> number" where
  "jsub a b = jadd a (jneg b)"

fun jmul :: "number \<Rightarrow> number \<Rightarrow> number" where
  "jmul (Fin a) (Fin b) = Fin (a * b)"
| "jmul NaN b = NaN"
| "jmul a NaN = NaN"
| "jmul (Fin a) PInf = (if a = 0 then NaN else if 0 < a then PInf else NInf)"
| "jmul (Fin a) NInf = (if a = 0 then NaN else if 0 < a then NInf else PInf)"
| "jmul PInf (Fin b) = (if b = 0 then NaN else if 0 < b then PInf else NInf)"
| "jmul NInf (Fin b) = (if b = 0 then NaN else if 0 < b then NInf else PInf)"
| "jmul PInf PInf = PInf"
| "jmul NInf NInf = PInf"
| "jmul PInf NInf = NInf"
| "jmul NInf PInf = NInf"

text \<open>Division by zero is not an error in JavaScript: it gives an infinity, and 0/0 is NaN.\<close>

fun jdiv :: "number \<Rightarrow> number \<Rightarrow> number" where
  "jdiv (Fin a) (Fin b) =
     (if b = 0 then (if a = 0 then NaN else if 0 < a then PInf else NInf) else Fin (a / b))"
| "jdiv NaN b = NaN"
| "jdiv a NaN = NaN"
| "jdiv (Fin a) PInf = Fin 0"
| "jdiv (Fin a) NInf = Fin 0"
| "jdiv PInf (Fin b) = (if 0 \<le> b then PInf else NInf)"
| "jdiv NInf (Fin b) = (if 0 \<le> b then NInf else PInf)"
| "jdiv PInf b = NaN"
| "jdiv NInf b = NaN"

text \<open>A comparison with NaN on either side is false.\<close>

fun jlt :: "number \<Rightarrow> number \<Rightarrow> bool" where
  "jlt (Fin a) (Fin b) = (a < b)"
| "jlt NaN b = False"
| "jlt a NaN = False"
| "jlt a NInf = False"
| "jlt PInf b = False"
| "jlt NInf b = True"
| "jlt a PInf = True"

definition jgt :: "number \<Rightarrow> number \<Rightarrow> bool" where
  "jgt a b = jlt b a"

text \<open>\<^verbatim>\<open>Math.min\<close> and \<^verbatim>\<open>Math.max\<close> return NaN as soon as one argument is NaN.\<close>

fun Math_min :: "number \<Rightarrow> number \<Rightarrow> number" where
  "Math_min (Fin a) (Fin b) = Fin (min a b)"
| "Math_min NaN b = NaN"
| "Math_min a NaN = NaN"
| "Math_min NInf b = NInf"
| "Math_min a NInf = NInf"
| "Math_min PInf b = b"
| "Math_min a PInf = a"

fun Math_max :: "number \<Rightarrow> number \<Rightarrow> number" where
  "Math_max (Fin a) (Fin b) = Fin (max a b)"
| "Math_max NaN b = NaN"
| "Math_max a NaN = NaN"
| "Math_max PInf b = PInf"
| "Math_max a PInf = PInf"
| "Math_max NInf b = b"
| "Math_max a NInf = a"

fun Math_sqrt :: "number \<Rightarrow> number" where
  "Math_sqrt (Fin a) = (if a < 0 then NaN else Fin (sqrt a))"
| "Math_sqrt PInf = PInf"
| "Math_sqrt NInf = NaN"
| "Math_sqrt NaN = NaN"

fun Math_abs :: "number \<Rightarrow> number" where
  "Math_abs (Fin a) = Fin \<bar>a\<bar>"
| "Math_abs PInf = PInf"
| "Math_abs NInf = PInf"
| "Math_abs NaN = NaN"

text \<open>\<^verbatim>\<open>Math.pow(v, 2)\<close>, the only exponent the program uses.\<close>

definition Math_pow2 :: "number \<Rightarrow> number" where
  "Math_pow2 v = jmul v v"

text \<open>A coordinate on the screen: a finite number between 0 and 1.\<close>

fun in01 :: "number \<Rightarrow> bool" where
  "in01 (Fin a) = (0 \<le> a \<and> a \<le> 1)"
| "in01 PInf = False"
| "in01 NInf = False"
| "in01 NaN = False"

section \<open>Data (types.ts)\<close>

text \<open>\<^verbatim>\<open>Point {x, y}\<close>; the fields are named \<open>px\<close> and \<open>py\<close> here.\<close>

record Point =
  px :: number
  py :: number

text \<open>
  \<^verbatim>\<open>CalibrationConfig {x: {start, end}, y: {start, end}}\<close>: raw value \<open>start\<close> is mapped to
  screen 0 and raw value \<open>end\<close> to screen 1. The fields are named \<open>cal_x\<close>, \<open>cal_y\<close> and
  \<open>start\<close>, \<open>end'\<close> here.
\<close>

record Axis =
  start :: number
  end' :: number

record CalibrationConfig =
  cal_x :: Axis
  cal_y :: Axis

datatype AppStatus = IDLE | LOADING_MODEL | CALIBRATING | ACTIVE | ERROR

section \<open>The vision service (services/visionService.ts)\<close>

definition BLINK_THRESHOLD :: number where "BLINK_THRESHOLD = Fin 0.45"
definition BLINK_MIN_DURATION :: real where "BLINK_MIN_DURATION = 100"
definition BLINK_MAX_DURATION :: real where "BLINK_MAX_DURATION = 300"

definition JITTER_THRESHOLD :: number where "JITTER_THRESHOLD = Fin 0.002"
definition IDLE_SMOOTHING :: number where "IDLE_SMOOTHING = Fin 0.02"
definition ACTIVE_SMOOTHING :: number where "ACTIVE_SMOOTHING = Fin 0.1"
definition MAX_SMOOTHING :: number where "MAX_SMOOTHING = Fin 0.5"

definition DWELL_RADIUS :: number where "DWELL_RADIUS = Fin 0.04"
definition DWELL_DURATION :: real where "DWELL_DURATION = 600"

subsection \<open>Step 2 of predictWebcam: map to screen coordinates\<close>

text \<open>
  With a stored calibration the target is \<open>(raw - start) / (end - start)\<close> on each axis,
  computed with no test on the divisor; without one the deviation from 0.5 is amplified by 2.5
  and the horizontal axis is mirrored. Both branches end in the same clamp.
\<close>

definition mapToScreen :: "CalibrationConfig option \<Rightarrow> number \<Rightarrow> number \<Rightarrow> number \<times> number" where
  "mapToScreen calibration noseX noseY =
     (let (targetX, targetY) =
        (case calibration of
           Some c \<Rightarrow>
             (jdiv (jsub noseX (start (cal_x c))) (jsub (end' (cal_x c)) (start (cal_x c))),
              jdiv (jsub noseY (start (cal_y c))) (jsub (end' (cal_y c)) (start (cal_y c))))
         | None \<Rightarrow>
             (let amplifiedX = jadd (Fin 0.5) (jmul (jsub noseX (Fin 0.5)) (Fin 2.5));
                  amplifiedY = jadd (Fin 0.5) (jmul (jsub noseY (Fin 0.5)) (Fin 2.5))
              in (jsub (Fin 1) (Math_max (Fin 0) (Math_min (Fin 1) amplifiedX)),
                  Math_max (Fin 0) (Math_min (Fin 1) amplifiedY))))
      in (Math_max (Fin 0) (Math_min (Fin 1) targetX),
          Math_max (Fin 0) (Math_min (Fin 1) targetY)))"

subsection \<open>Step 3 of predictWebcam: adaptive smoothing and jitter reduction\<close>

definition adaptiveSmoothing :: "number \<Rightarrow> number \<Rightarrow> number \<Rightarrow> number \<Rightarrow> number \<times> number" where
  "adaptiveSmoothing curX curY targetX targetY =
     (let dx = jsub targetX curX;
          dy = jsub targetY curY;
          distance = Math_sqrt (jadd (jmul dx dx) (jmul dy dy));
          alpha = (if jlt distance JITTER_THRESHOLD then IDLE_SMOOTHING
                   else Math_min (jadd ACTIVE_SMOOTHING (jmul distance (Fin 5))) MAX_SMOOTHING)
      in (jadd curX (jmul dx alpha), jadd curY (jmul dy alpha)))"

subsection \<open>Step 4 of predictWebcam: blink detection\<close>

text \<open>The method \<open>dist\<close> of the service.\<close>

definition dist' :: "Point \<Rightarrow> Point \<Rightarrow> number" where
  "dist' p1 p2 = Math_sqrt (jadd (Math_pow2 (jsub (px p1) (px p2))) (Math_pow2 (jsub (py p1) (py p2))))"

text \<open>
  The landmark array comes from the face model, which always delivers its full set of points;
  it is a function from the index to the point.
\<close>

definition calculateEAR :: "(nat \<Rightarrow> Point) \<Rightarrow> nat list \<Rightarrow> number" where
  "calculateEAR landmarks indices =
     (let v1 = dist' (landmarks (indices ! 1)) (landmarks (indices ! 5));
          v2 = dist' (landmarks (indices ! 2)) (landmarks (indices ! 4));
          h = dist' (landmarks (indices ! 0)) (landmarks (indices ! 3))
      in jdiv (jadd v1 v2) (jmul (Fin 2.0) h))"

text \<open>
  The blink state machine. \<open>startTime\<close> is the field \<open>blinkStartTime\<close>, with -1 for "eyes
  open"; \<open>now\<close> is what \<^verbatim>\<open>performance.now()\<close> returns in this step. The result is the new
  \<open>blinkStartTime\<close> and \<open>didBlink\<close>.
\<close>

definition blinkDetection :: "real \<Rightarrow> bool \<Rightarrow> real \<Rightarrow> real \<times> bool" where
  "blinkDetection startTime blinking now =
     (if blinking then
        (if startTime = - 1 then (now, False) else (startTime, False))
      else
        (if startTime \<noteq> - 1 then
           (let duration = now - startTime
            in (- 1, BLINK_MIN_DURATION \<le> duration \<and> duration \<le> BLINK_MAX_DURATION))
         else (startTime, False)))"

subsection \<open>The state of the service\<close>

record VisionService =
  cursorX :: number
  cursorY :: number
  blinkStartTime :: real
  dwellAnchor :: Point
  dwellStartTime :: real
  hasTriggeredDwell :: bool
  calibration :: "CalibrationConfig option"

text \<open>
  The field initialisers, after \<^verbatim>\<open>loadCalibration\<close> has read the stored profile \<open>stored\<close> and
  \<^verbatim>\<open>initialize\<close> has set the dwell timer at time \<open>t0\<close>.
\<close>

definition initialService :: "CalibrationConfig option \<Rightarrow> real \<Rightarrow> VisionService" where
  "initialService stored t0 =
     \<lparr>cursorX = Fin 0.5, cursorY = Fin 0.5, blinkStartTime = - 1,
      dwellAnchor = \<lparr>px = Fin 0.5, py = Fin 0.5\<rparr>, dwellStartTime = t0,
      hasTriggeredDwell = False, calibration = stored\<rparr>"

definition setCalibration :: "VisionService \<Rightarrow> CalibrationConfig \<Rightarrow> VisionService" where
  "setCalibration s config = s\<lparr>calibration := Some config\<rparr>"

subsection \<open>Step 5 of predictWebcam: dwell detection\<close>

text \<open>
  Reads the cursor that step 3 has just written. The result is the new state, \<open>dwellProgress\<close>
  and \<open>didDwell\<close>.
\<close>

definition dwellDetection :: "VisionService \<Rightarrow> real \<Rightarrow> VisionService \<times> real \<times> bool" where
  "dwellDetection s now =
     (let dwellDist = Math_sqrt (jadd (Math_pow2 (jsub (cursorX s) (px (dwellAnchor s))))
                                      (Math_pow2 (jsub (cursorY s) (py (dwellAnchor s)))))
      in if jgt dwellDist DWELL_RADIUS then
           (s\<lparr>dwellAnchor := \<lparr>px = cursorX s, py = cursorY s\<rparr>,
              dwellStartTime := now, hasTriggeredDwell := False\<rparr>, 0, False)
         else if \<not> hasTriggeredDwell s then
           (let elapsed = now - dwellStartTime s;
                dwellProgress = min 1 (elapsed / DWELL_DURATION)
            in if DWELL_DURATION \<le> elapsed then (s\<lparr>hasTriggeredDwell := True\<rparr>, 0, True)
               else (s, dwellProgress, False))
         else (s, 0, False))"

subsection \<open>predictWebcam\<close>

text \<open>
  One video frame: the faces the model found, and the two clock readings the frame may take
  (one in the blink step, one in the dwell step).
\<close>

record Frame =
  faceLandmarks :: "(nat \<Rightarrow> Point) list"
  blinkNow :: real
  dwellNow :: real

record VisionResult =
  cursor :: Point
  rawHead :: Point
  isBlinking :: bool
  ear :: number
  didBlink :: bool
  dwellProgress :: real
  didDwell :: bool

text \<open>A frame with no face changes nothing and calls \<open>onResult\<close> with nothing.\<close>

definition predictWebcam :: "VisionService \<Rightarrow> Frame \<Rightarrow> VisionService \<times> VisionResult option" where
  "predictWebcam s f =
     (case faceLandmarks f of
        [] \<Rightarrow> (s, None)
      | landmarks # _ \<Rightarrow>
          (let noseX = px (landmarks 1);
               noseY = py (landmarks 1);
               (targetX, targetY) = mapToScreen (calibration s) noseX noseY;
               (newX, newY) = adaptiveSmoothing (cursorX s) (cursorY s) targetX targetY;
               leftEAR = calculateEAR landmarks [33, 160, 158, 133, 153, 144];
               rightEAR = calculateEAR landmarks [362, 385, 387, 263, 373, 380];
               avgEAR = jdiv (jadd leftEAR rightEAR) (Fin 2);
               blinking = jlt avgEAR BLINK_THRESHOLD;
               (newStart, blinked) = blinkDetection (blinkStartTime s) blinking (blinkNow f);
               s1 = s\<lparr>cursorX := newX, cursorY := newY, blinkStartTime := newStart\<rparr>;
               (s2, progress, dwelled) = dwellDetection s1 (dwellNow f)
           in (s2,
               Some \<lparr>cursor = \<lparr>px = cursorX s2, py = cursorY s2\<rparr>,
                     rawHead = \<lparr>px = noseX, py = noseY\<rparr>,
                     isBlinking = blinking, ear = avgEAR, didBlink = blinked,
                     dwellProgress = progress, didDwell = dwelled\<rparr>)))"

text \<open>The service over a sequence of frames.\<close>

fun runFrames :: "VisionService \<Rightarrow> Frame list \<Rightarrow> VisionService" where
  "runFrames s [] = s"
| "runFrames s (f # fs) = runFrames (fst (predictWebcam s f)) fs"

text \<open>
  What the service passes to \<open>onResult\<close> over a sequence of frames, frame by frame: \<open>None\<close>
  for a frame with no face, on which the callback is not called.
\<close>

fun webcamResults :: "VisionService \<Rightarrow> Frame list \<Rightarrow> VisionResult option list" where
  "webcamResults s [] = []"
| "webcamResults s (f # fs) = snd (predictWebcam s f) # webcamResults (fst (predictWebcam s f)) fs"

section \<open>The calibration engine (components/CalibrationScreen.tsx)\<close>

text \<open>
  \<open>computeCalibration\<close> reads \<open>points[0]\<close> to \<open>points[3]\<close>; on a shorter array the read of a
  field of \<^verbatim>\<open>undefined\<close> throws, which is \<open>None\<close> here.
\<close>

definition computeCalibration :: "Point list \<Rightarrow> CalibrationConfig option" where
  "computeCalibration points =
     (case points of
        pTL # pTR # pBR # pBL # _ \<Rightarrow>
          (let rawXLeft = jdiv (jadd (px pTL) (px pBL)) (Fin 2);
               rawXRight = jdiv (jadd (px pTR) (px pBR)) (Fin 2);
               rawYTop = jdiv (jadd (py pTL) (py pTR)) (Fin 2);
               rawYBottom = jdiv (jadd (py pBL) (py pBR)) (Fin 2);
               rangeX = jsub rawXRight rawXLeft;
               startX = jsub rawXLeft (jmul (jdiv rangeX (Fin 0.8)) (Fin 0.1));
               endX = jadd rawXRight (jmul (jdiv rangeX (Fin 0.8)) (Fin 0.1));
               rangeY = jsub rawYBottom rawYTop;
               startY = jsub rawYTop (jmul (jdiv rangeY (Fin 0.8)) (Fin 0.1));
               endY = jadd rawYBottom (jmul (jdiv rangeY (Fin 0.8)) (Fin 0.1))
           in Some \<lparr>cal_x = \<lparr>start = startX, end' = endX\<rparr>,
                    cal_y = \<lparr>start = startY, end' = endY\<rparr>\<rparr>)
      | _ \<Rightarrow> None)"

section \<open>The gesture layer (the App component)\<close>

definition DOUBLE_BLINK_WINDOW :: real where "DOUBLE_BLINK_WINDOW = 600"

text \<open>What the gesture layer does to the app selection: open an app (with its content load) or close the active one.\<close>

datatype Action = OpenApp string | CloseApp

text \<open>
  The state the frame callback and the timer callback read and write. \<open>activeApp\<close> stands
  for the state and for its mirror \<open>activeAppRef\<close>, \<open>status\<close> likewise; \<open>doubleBlinkTimer\<close> is the
  deadline of the pending timeout, if one is pending.
\<close>

record AppState =
  status :: AppStatus
  ui_cursor :: Point
  ui_rawHead :: "Point option"
  ui_isBlinking :: bool
  gestureProgress :: real
  activeApp :: "string option"
  appContent :: "string option"
  hoveredAppId :: "string option"
  firstBlinkHitRef :: "string option"
  blinkCount :: nat
  doubleBlinkTimer :: "real option"

text \<open>A string or null used as a condition: null and the empty string are false.\<close>

definition truthy :: "string option \<Rightarrow> bool" where
  "truthy v = (case v of None \<Rightarrow> False | Some str \<Rightarrow> str \<noteq> [])"

text \<open>Step 1 of processVisionResult: the hit test.\<close>

definition hitTest :: "AppState \<Rightarrow> Point \<Rightarrow> string option" where
  "hitTest s c =
     (if status s = ACTIVE \<and> \<not> truthy (activeApp s) then
        (let centerX = Fin 0.5;
             centerY = Fin 0.5;
             hit0 = None;
             hit1 = (if jlt (Math_abs (jsub (px c) (jsub centerX (Fin 0.1)))) (Fin 0.08)
                        \<and> jlt (Math_abs (jsub (py c) centerY)) (Fin 0.1)
                     then Some ''mail'' else hit0);
             hit2 = (if jlt (Math_abs (jsub (px c) (jadd centerX (Fin 0.1)))) (Fin 0.08)
                        \<and> jlt (Math_abs (jsub (py c) centerY)) (Fin 0.1)
                     then Some ''weather'' else hit1);
             hit3 = (if jlt (Math_abs (jsub (px c) (jsub centerX (Fin 0.1)))) (Fin 0.08)
                        \<and> jlt (Math_abs (jsub (py c) (jadd centerY (Fin 0.2)))) (Fin 0.1)
                     then Some ''assistant'' else hit2);
             hit4 = (if jlt (Math_abs (jsub (px c) (jadd centerX (Fin 0.1)))) (Fin 0.08)
                        \<and> jlt (Math_abs (jsub (py c) (jadd centerY (Fin 0.2)))) (Fin 0.1)
                     then Some ''system'' else hit3)
         in hit4)
      else None)"

text \<open>
  \<^verbatim>\<open>setActiveApp(target); loadAppContent(target)\<close>, which both callers run on a target they
  have tested to be a non-empty string.
\<close>

definition openApp :: "AppState \<Rightarrow> string option \<Rightarrow> AppState \<times> Action option" where
  "openApp s target =
     (case target of
        Some appId \<Rightarrow> (s\<lparr>activeApp := Some appId, appContent := None\<rparr>, Some (OpenApp appId))
      | None \<Rightarrow> (s, None))"

text \<open>
  The callback the vision service calls on every frame with a face. \<open>now\<close> is the clock at the
  call, from which the timeout counts.
\<close>

definition processVisionResult :: "real \<Rightarrow> AppState \<Rightarrow> VisionResult \<Rightarrow> AppState \<times> Action option" where
  "processVisionResult now s r =
     (let s1 = s\<lparr>ui_cursor := cursor r, ui_rawHead := Some (rawHead r),
                 ui_isBlinking := isBlinking r, gestureProgress := dwellProgress r\<rparr>;
          hit = hitTest s (cursor r);
          s2 = s1\<lparr>hoveredAppId := hit\<rparr>;
          (s3, act) =
            (if didDwell r \<and> status s \<noteq> CALIBRATING then
               (if \<not> truthy (activeApp s) \<and> truthy hit then openApp s2 hit else (s2, None))
             else (s2, None));
          s4 =
            (if didBlink r \<and> status s \<noteq> CALIBRATING then
               (let s5 = s3\<lparr>blinkCount := blinkCount s3 + 1\<rparr>;
                    s6 = (if blinkCount s5 = 1 then s5\<lparr>firstBlinkHitRef := hit\<rparr> else s5)
                in s6\<lparr>doubleBlinkTimer := Some (now + DOUBLE_BLINK_WINDOW)\<rparr>)
             else s3)
      in (s4, act))"

text \<open>The callback of the timeout, run when the deadline of the pending timeout is reached.\<close>

definition blinkSequenceFinished :: "AppState \<Rightarrow> AppState \<times> Action option" where
  "blinkSequenceFinished s =
     (let count = blinkCount s;
          s1 = s\<lparr>blinkCount := 0, doubleBlinkTimer := None\<rparr>
      in if count = 2 then
           (if truthy (activeApp s1) then (s1\<lparr>activeApp := None\<rparr>, Some CloseApp) else (s1, None))
         else if count = 1 then
           (if \<not> truthy (activeApp s1) \<and> truthy (firstBlinkHitRef s1)
            then openApp s1 (firstBlinkHitRef s1) else (s1, None))
         else (s1, None))"

text \<open>The gesture layer over a sequence of frames, each with the clock at its callback.\<close>

fun processFrames :: "AppState \<Rightarrow> (real \<times> VisionResult) list \<Rightarrow> AppState" where
  "processFrames s [] = s"
| "processFrames s ((now, r) # rs) = processFrames (fst (processVisionResult now s r)) rs"

text \<open>The initial values of the state hooks and refs of the component.\<close>

definition initialApp :: AppState where
  "initialApp =
     \<lparr>status = LOADING_MODEL, ui_cursor = \<lparr>px = Fin 0.5, py = Fin 0.5\<rparr>, ui_rawHead = None,
      ui_isBlinking = False, gestureProgress = 0, activeApp = None, appContent = None,
      hoveredAppId = None, firstBlinkHitRef = None, blinkCount = 0, doubleBlinkTimer = None\<rparr>"

section \<open>Notions used to state the properties\<close>

text \<open>
  The gain of the filter in the words of the specification (section 4.2), on real numbers:
  \<open>\<alpha>_idle\<close> below the jitter threshold, \<open>min (\<alpha>_active + k d) \<alpha>_max\<close> from it on.
\<close>

definition specGain :: "real \<Rightarrow> real" where
  "specGain d = (if d < 0.002 then 0.02 else min (0.1 + 5 * d) 0.5)"

text \<open>The four screen targets of the calibration screen (\<open>POINTS\<close>, without the labels).\<close>

definition POINTS :: "(real \<times> real) list" where
  "POINTS = [(0.1, 0.1), (0.9, 0.1), (0.9, 0.9), (0.1, 0.9)]"

text \<open>
  The raw point a user shows for the screen point \<open>p\<close> when raw and screen coordinates are tied
  by \<open>raw = start + screen (end - start)\<close> on each axis.
\<close>

definition affineRaw :: "real \<Rightarrow> real \<Rightarrow> real \<Rightarrow> real \<Rightarrow> real \<times> real \<Rightarrow> Point" where
  "affineRaw xs xe ys ye p =
     \<lparr>px = Fin (xs + fst p * (xe - xs)), py = Fin (ys + snd p * (ye - ys))\<rparr>"

text \<open>
  A landmark array for concrete frames: the nose (index 1) at \<open>(a, b)\<close>, both eyes one unit
  wide, and the lower lids \<open>lid\<close> below the upper ones, so that the eye aspect ratio is \<open>lid\<close>.
\<close>

definition face :: "real \<Rightarrow> real \<Rightarrow> real \<Rightarrow> nat \<Rightarrow> Point" where
  "face a b lid =
     (\<lambda>i. if i = 1 then \<lparr>px = Fin a, py = Fin b\<rparr>
          else if i = 33 \<or> i = 362 then \<lparr>px = Fin 0, py = Fin 0\<rparr>
          else if i = 133 \<or> i = 263 then \<lparr>px = Fin 1, py = Fin 0\<rparr>
          else if i = 144 \<or> i = 153 \<or> i = 380 \<or> i = 373 then \<lparr>px = Fin (1 / 2), py = Fin lid\<rparr>
          else \<lparr>px = Fin (1 / 2), py = Fin 0\<rparr>)"

text \<open>A result of the vision service with the cursor at \<open>(a, b)\<close> and the two events as given.\<close>

definition resultAt :: "real \<Rightarrow> real \<Rightarrow> bool \<Rightarrow> bool \<Rightarrow> VisionResult" where
  "resultAt a b blinked dwelled =
     \<lparr>cursor = \<lparr>px = Fin a, py = Fin b\<rparr>, rawHead = \<lparr>px = Fin a, py = Fin b\<rparr>,
      isBlinking = False, ear = Fin 1, didBlink = blinked, dwellProgress = 0, didDwell = dwelled\<rparr>"

section \<open>Arithmetic of the number model\<close>

lemma jsub_Fin [simp]: "jsub (Fin a) (Fin b) = Fin (a - b)"
  by (simp add: jsub_def)

lemmas eval_defs = predictWebcam_def initialService_def mapToScreen_def adaptiveSmoothing_def
  calculateEAR_def dist'_def Math_pow2_def blinkDetection_def dwellDetection_def jgt_def jsub_def
  JITTER_THRESHOLD_def IDLE_SMOOTHING_def ACTIVE_SMOOTHING_def MAX_SMOOTHING_def
  BLINK_THRESHOLD_def BLINK_MIN_DURATION_def BLINK_MAX_DURATION_def DWELL_RADIUS_def
  DWELL_DURATION_def face_def Let_def

section \<open>The landmark mapper\<close>

text \<open>
  Claim C1 says that a profile with a zero-width axis makes the mapper guard the division and
  fall back to the uncalibrated mapping, so that no invalid target is produced. The code has
  no such guard. With the horizontal axis stored as \<open>start = end = 0.5\<close> and the nose at
  \<open>(0.5, 0.5)\<close> the horizontal target is 0/0, which the clamp leaves as NaN, where the
  uncalibrated mapping gives 0.5.
\<close>

theorem zero_width_axis_unguarded:
  "mapToScreen (Some \<lparr>cal_x = \<lparr>start = Fin (1 / 2), end' = Fin (1 / 2)\<rparr>,
                       cal_y = \<lparr>start = Fin 0, end' = Fin 1\<rparr>\<rparr>) (Fin (1 / 2)) (Fin (1 / 2))
     = (NaN, Fin (1 / 2))
   \<and> mapToScreen None (Fin (1 / 2)) (Fin (1 / 2)) = (Fin (1 / 2), Fin (1 / 2))"
  by (simp add: mapToScreen_def)

text \<open>
  Claim C1, amended: on an axis stored with \<open>end = start\<close> the mapper computes the quotient
  as for any other profile, with no fallback; when the raw coordinate differs from \<open>start\<close> the
  quotient is infinite and the final clamp turns it into 1 (raw above \<open>start\<close>) or 0 (raw below).
\<close>

theorem zero_width_axis_clamps_infinity:
  "(nx \<noteq> a \<longrightarrow>
      fst (mapToScreen (Some \<lparr>cal_x = \<lparr>start = Fin a, end' = Fin a\<rparr>, cal_y = ay\<rparr>) (Fin nx) rawY)
        = (if a < nx then Fin 1 else Fin 0))
   \<and> (ny \<noteq> b \<longrightarrow>
      snd (mapToScreen (Some \<lparr>cal_x = ax, cal_y = \<lparr>start = Fin b, end' = Fin b\<rparr>\<rparr>) rawX (Fin ny))
        = (if b < ny then Fin 1 else Fin 0))"
  by (simp add: mapToScreen_def split_beta)

text \<open>
  At \<open>start = end = 0.5\<close> a nose at 0.6 is sent to the right edge and a nose at 0.25 to the
  top edge; the uncalibrated mapping would send the first to 0.25.
\<close>

theorem zero_width_axis_clamps_infinity_witness:
  "fst (mapToScreen (Some \<lparr>cal_x = \<lparr>start = Fin (1 / 2), end' = Fin (1 / 2)\<rparr>,
                            cal_y = \<lparr>start = Fin 0, end' = Fin 1\<rparr>\<rparr>) (Fin (3 / 5)) (Fin (1 / 2)))
     = Fin 1
   \<and> snd (mapToScreen (Some \<lparr>cal_x = \<lparr>start = Fin 0, end' = Fin 1\<rparr>,
                              cal_y = \<lparr>start = Fin (1 / 2), end' = Fin (1 / 2)\<rparr>\<rparr>)
            (Fin (1 / 2)) (Fin (1 / 4)))
     = Fin 0
   \<and> fst (mapToScreen None (Fin (3 / 5)) (Fin (1 / 2))) = Fin (1 / 4)"
proof -
  have "fst (mapToScreen None (Fin (3 / 5)) (Fin (1 / 2))) = Fin (1 / 4)"
    by (simp add: mapToScreen_def)
  with zero_width_axis_clamps_infinity [of "3 / 5" "1 / 2" "\<lparr>start = Fin 0, end' = Fin 1\<rparr>"
      "Fin (1 / 2)" "1 / 4" "1 / 2" "\<lparr>start = Fin 0, end' = Fin 1\<rparr>" "Fin (1 / 2)"]
  show ?thesis by simp
qed

text \<open>
  Claim C7: for every raw point and every profile the target lies in the unit square after
  the final clamp. The code does not achieve it: the step it announces as "Clamp to screen",
  \<^verbatim>\<open>Math.max(0, Math.min(1, target))\<close>, lets NaN through. The input below is one the program
  produces by itself. A user who keeps still during calibration gives four equal
  measurements; \<open>computeCalibration\<close> then stores \<open>start = end\<close> on both axes, and a frame with
  the nose at the same place is mapped to \<open>(NaN, NaN)\<close>, which is not a point of the screen.
\<close>

theorem mapper_target_off_screen:
  "computeCalibration
      [\<lparr>px = Fin (1 / 2), py = Fin (1 / 4)\<rparr>, \<lparr>px = Fin (1 / 2), py = Fin (1 / 4)\<rparr>,
       \<lparr>px = Fin (1 / 2), py = Fin (1 / 4)\<rparr>, \<lparr>px = Fin (1 / 2), py = Fin (1 / 4)\<rparr>]
     = Some \<lparr>cal_x = \<lparr>start = Fin (1 / 2), end' = Fin (1 / 2)\<rparr>,
             cal_y = \<lparr>start = Fin (1 / 4), end' = Fin (1 / 4)\<rparr>\<rparr>
   \<and> mapToScreen (computeCalibration
        [\<lparr>px = Fin (1 / 2), py = Fin (1 / 4)\<rparr>, \<lparr>px = Fin (1 / 2), py = Fin (1 / 4)\<rparr>,
         \<lparr>px = Fin (1 / 2), py = Fin (1 / 4)\<rparr>, \<lparr>px = Fin (1 / 2), py = Fin (1 / 4)\<rparr>])
        (Fin (1 / 2)) (Fin (1 / 4))
     = (NaN, NaN)
   \<and> \<not> in01 (fst (mapToScreen (computeCalibration
        [\<lparr>px = Fin (1 / 2), py = Fin (1 / 4)\<rparr>, \<lparr>px = Fin (1 / 2), py = Fin (1 / 4)\<rparr>,
         \<lparr>px = Fin (1 / 2), py = Fin (1 / 4)\<rparr>, \<lparr>px = Fin (1 / 2), py = Fin (1 / 4)\<rparr>])
        (Fin (1 / 2)) (Fin (1 / 4))))
   \<and> \<not> in01 (snd (mapToScreen (computeCalibration
        [\<lparr>px = Fin (1 / 2), py = Fin (1 / 4)\<rparr>, \<lparr>px = Fin (1 / 2), py = Fin (1 / 4)\<rparr>,
         \<lparr>px = Fin (1 / 2), py = Fin (1 / 4)\<rparr>, \<lparr>px = Fin (1 / 2), py = Fin (1 / 4)\<rparr>])
        (Fin (1 / 2)) (Fin (1 / 4))))"
  by (simp add: computeCalibration_def mapToScreen_def Let_def)

section \<open>The adaptive cursor filter\<close>

lemma adaptiveSmoothing_Fin:
  "adaptiveSmoothing (Fin cx) (Fin cy) (Fin tx) (Fin ty) =
     (Fin (cx + (tx - cx) * specGain (sqrt ((tx - cx)\<^sup>2 + (ty - cy)\<^sup>2))),
      Fin (cy + (ty - cy) * specGain (sqrt ((tx - cx)\<^sup>2 + (ty - cy)\<^sup>2))))"
proof -
  have nn: "\<not> (tx - cx) * (tx - cx) + (ty - cy) * (ty - cy) < 0"
    by (simp add: not_sum_squares_lt_zero)
  show ?thesis
    unfolding adaptiveSmoothing_def Let_def JITTER_THRESHOLD_def IDLE_SMOOTHING_def
      ACTIVE_SMOOTHING_def MAX_SMOOTHING_def specGain_def power2_eq_square
    using nn by (simp add: mult.commute)
qed

lemma dwellDetection_keeps:
  "cursorX (fst (dwellDetection s now)) = cursorX s
   \<and> cursorY (fst (dwellDetection s now)) = cursorY s
   \<and> calibration (fst (dwellDetection s now)) = calibration s
   \<and> blinkStartTime (fst (dwellDetection s now)) = blinkStartTime s"
  by (simp add: dwellDetection_def Let_def)

text \<open>
  Claim C4: in a frame with a face, with the cursor at \<open>(cx, cy)\<close>, the mapped target at
  \<open>(tx, ty)\<close> and \<open>d\<close> their Euclidean distance, the gain \<open>g\<close> is 0.02 when \<open>d < 0.002\<close> and
  \<open>min (0.1 + 5 d) 0.5\<close> otherwise, and each cursor coordinate moves by
  \<open>(target - current) g\<close>; the cursor reported to the callback is the updated one.
\<close>

theorem filter_gain:
  assumes "faceLandmarks f = landmarks # rest"
    and "cursorX s = Fin cx" and "cursorY s = Fin cy"
    and "mapToScreen (calibration s) (px (landmarks 1)) (py (landmarks 1)) = (Fin tx, Fin ty)"
    and "d = sqrt ((tx - cx)\<^sup>2 + (ty - cy)\<^sup>2)"
    and "g = (if d < 0.002 then 0.02 else min (0.1 + 5 * d) 0.5)"
  shows "cursorX (fst (predictWebcam s f)) = Fin (cx + (tx - cx) * g)
       \<and> cursorY (fst (predictWebcam s f)) = Fin (cy + (ty - cy) * g)
       \<and> map_option cursor (snd (predictWebcam s f)) =
           Some \<lparr>px = Fin (cx + (tx - cx) * g), py = Fin (cy + (ty - cy) * g)\<rparr>"
  using assms
  by (simp add: predictWebcam_def adaptiveSmoothing_Fin Let_def split_beta dwellDetection_keeps
      specGain_def del: One_nat_def)

text \<open>
  With no profile and the nose at \<open>(0.5, 0.7)\<close> the target is \<open>(0.5, 1)\<close>, at distance 0.5 from
  the initial cursor: the gain is capped at 0.5 and the cursor moves half the way, to 0.75.
\<close>

theorem filter_gain_witness:
  "cursorX (fst (predictWebcam (initialService None 0)
      \<lparr>faceLandmarks = [face (1 / 2) (7 / 10) 1], blinkNow = 16, dwellNow = 16\<rparr>)) = Fin (1 / 2)
   \<and> cursorY (fst (predictWebcam (initialService None 0)
      \<lparr>faceLandmarks = [face (1 / 2) (7 / 10) 1], blinkNow = 16, dwellNow = 16\<rparr>)) = Fin (3 / 4)"
proof -
  have sq: "1 / 2 = sqrt ((1 / 2 - 1 / 2)\<^sup>2 + (1 - 1 / 2)\<^sup>2)"
    by (rule sym, rule real_sqrt_unique) (simp_all add: power2_eq_square)
  have tgt: "mapToScreen (calibration (initialService None 0)) (px (face (1 / 2) (7 / 10) 1 1))
          (py (face (1 / 2) (7 / 10) 1 1)) = (Fin (1 / 2), Fin 1)"
    by (simp add: mapToScreen_def initialService_def face_def)
  from tgt sq filter_gain [of
      "\<lparr>faceLandmarks = [face (1 / 2) (7 / 10) 1], blinkNow = 16, dwellNow = 16\<rparr>"
      "face (1 / 2) (7 / 10) 1" "[]" "initialService None 0" "1 / 2" "1 / 2" "1 / 2" 1 "1 / 2" "1 / 2"]
  show ?thesis
    by (simp add: initialService_def)
qed

section \<open>The cursor and the screen\<close>

text \<open>
  Claim C6: starting from the default \<open>(0.5, 0.5)\<close>, the cursor stays in the unit square after
  every frame, whatever the raw input and the stored profile. The code does not achieve it,
  by the same defect as in claim C7: the clamp lets the NaN of 0/0 through, and the filter
  adds it to the cursor. After a calibration with a still user at \<open>(0.5, 0.5)\<close>, the first
  frame with the nose at that place makes both cursor coordinates NaN, and they stay NaN in
  the frames that follow, wherever the nose goes.
\<close>

theorem cursor_leaves_screen:
  "cursorX (runFrames
      (initialService (computeCalibration
         [\<lparr>px = Fin (1 / 2), py = Fin (1 / 2)\<rparr>, \<lparr>px = Fin (1 / 2), py = Fin (1 / 2)\<rparr>,
          \<lparr>px = Fin (1 / 2), py = Fin (1 / 2)\<rparr>, \<lparr>px = Fin (1 / 2), py = Fin (1 / 2)\<rparr>]) 0)
      [\<lparr>faceLandmarks = [face (1 / 2) (1 / 2) 1], blinkNow = 16, dwellNow = 16\<rparr>]) = NaN
   \<and> cursorY (runFrames
      (initialService (computeCalibration
         [\<lparr>px = Fin (1 / 2), py = Fin (1 / 2)\<rparr>, \<lparr>px = Fin (1 / 2), py = Fin (1 / 2)\<rparr>,
          \<lparr>px = Fin (1 / 2), py = Fin (1 / 2)\<rparr>, \<lparr>px = Fin (1 / 2), py = Fin (1 / 2)\<rparr>]) 0)
      [\<lparr>faceLandmarks = [face (1 / 2) (1 / 2) 1], blinkNow = 16, dwellNow = 16\<rparr>]) = NaN
   \<and> cursorX (runFrames
      (initialService (computeCalibration
         [\<lparr>px = Fin (1 / 2), py = Fin (1 / 2)\<rparr>, \<lparr>px = Fin (1 / 2), py = Fin (1 / 2)\<rparr>,
          \<lparr>px = Fin (1 / 2), py = Fin (1 / 2)\<rparr>, \<lparr>px = Fin (1 / 2), py = Fin (1 / 2)\<rparr>]) 0)
      [\<lparr>faceLandmarks = [face (1 / 2) (1 / 2) 1], blinkNow = 16, dwellNow = 16\<rparr>,
       \<lparr>faceLandmarks = [face (7 / 10) (3 / 10) 1], blinkNow = 32, dwellNow = 32\<rparr>]) = NaN
   \<and> cursorY (runFrames
      (initialService (computeCalibration
         [\<lparr>px = Fin (1 / 2), py = Fin (1 / 2)\<rparr>, \<lparr>px = Fin (1 / 2), py = Fin (1 / 2)\<rparr>,
          \<lparr>px = Fin (1 / 2), py = Fin (1 / 2)\<rparr>, \<lparr>px = Fin (1 / 2), py = Fin (1 / 2)\<rparr>]) 0)
      [\<lparr>faceLandmarks = [face (1 / 2) (1 / 2) 1], blinkNow = 16, dwellNow = 16\<rparr>,
       \<lparr>faceLandmarks = [face (7 / 10) (3 / 10) 1], blinkNow = 32, dwellNow = 32\<rparr>]) = NaN
   \<and> \<not> in01 (cursorX (runFrames
      (initialService (computeCalibration
         [\<lparr>px = Fin (1 / 2), py = Fin (1 / 2)\<rparr>, \<lparr>px = Fin (1 / 2), py = Fin (1 / 2)\<rparr>,
          \<lparr>px = Fin (1 / 2), py = Fin (1 / 2)\<rparr>, \<lparr>px = Fin (1 / 2), py = Fin (1 / 2)\<rparr>]) 0)
      [\<lparr>faceLandmarks = [face (1 / 2) (1 / 2) 1], blinkNow = 16, dwellNow = 16\<rparr>]))"
proof -
  have cal: "computeCalibration
         [\<lparr>px = Fin (1 / 2), py = Fin (1 / 2)\<rparr>, \<lparr>px = Fin (1 / 2), py = Fin (1 / 2)\<rparr>,
          \<lparr>px = Fin (1 / 2), py = Fin (1 / 2)\<rparr>, \<lparr>px = Fin (1 / 2), py = Fin (1 / 2)\<rparr>]
      = Some \<lparr>cal_x = \<lparr>start = Fin (1 / 2), end' = Fin (1 / 2)\<rparr>,
              cal_y = \<lparr>start = Fin (1 / 2), end' = Fin (1 / 2)\<rparr>\<rparr>"
    by (simp add: computeCalibration_def Let_def)
  show ?thesis unfolding cal by (simp add: eval_defs)
qed

section \<open>The blink detector\<close>

text \<open>
  Claim C3: in a frame with a face, a blink event is emitted exactly when the eyes are open in
  this frame, a start time is recorded (the eyes were closed) and the time since then lies
  in \<open>[100, 300]\<close> ms. Opening the eyes clears the recorded start time whatever the duration;
  closing them while none is recorded records the clock of this frame.
\<close>

theorem blink_event:
  assumes "snd (predictWebcam s f) = Some r"
  shows "didBlink r = (\<not> isBlinking r \<and> blinkStartTime s \<noteq> - 1
                        \<and> 100 \<le> blinkNow f - blinkStartTime s
                        \<and> blinkNow f - blinkStartTime s \<le> 300)
       \<and> blinkStartTime (fst (predictWebcam s f)) =
           (if isBlinking r then (if blinkStartTime s = - 1 then blinkNow f else blinkStartTime s)
            else - 1)"
proof (cases "faceLandmarks f")
  case Nil
  with assms show ?thesis by (simp add: predictWebcam_def)
next
  case (Cons landmarks rest)
  with assms show ?thesis
    by (auto simp: predictWebcam_def Let_def split_beta dwellDetection_keeps blinkDetection_def
        BLINK_MIN_DURATION_def BLINK_MAX_DURATION_def)
qed

text \<open>
  Eyes closed at 1000 ms: reopened at 1150 ms there is an event, reopened at 1050 ms or at
  1350 ms there is none, and the start time is cleared each time; closing the eyes at
  1000 ms records 1000.
\<close>

theorem blink_event_witness:
  "map_option didBlink (snd (predictWebcam (initialService None 0\<lparr>blinkStartTime := 1000\<rparr>)
       \<lparr>faceLandmarks = [face (1 / 2) (1 / 2) 1], blinkNow = 1150, dwellNow = 1150\<rparr>)) = Some True
   \<and> map_option didBlink (snd (predictWebcam (initialService None 0\<lparr>blinkStartTime := 1000\<rparr>)
       \<lparr>faceLandmarks = [face (1 / 2) (1 / 2) 1], blinkNow = 1050, dwellNow = 1050\<rparr>)) = Some False
   \<and> map_option didBlink (snd (predictWebcam (initialService None 0\<lparr>blinkStartTime := 1000\<rparr>)
       \<lparr>faceLandmarks = [face (1 / 2) (1 / 2) 1], blinkNow = 1350, dwellNow = 1350\<rparr>)) = Some False
   \<and> blinkStartTime (fst (predictWebcam (initialService None 0\<lparr>blinkStartTime := 1000\<rparr>)
       \<lparr>faceLandmarks = [face (1 / 2) (1 / 2) 1], blinkNow = 1350, dwellNow = 1350\<rparr>)) = - 1
   \<and> blinkStartTime (fst (predictWebcam (initialService None 0)
       \<lparr>faceLandmarks = [face (1 / 2) (1 / 2) 0], blinkNow = 1000, dwellNow = 1000\<rparr>)) = 1000"
proof -
  let ?s = "initialService None 0\<lparr>blinkStartTime := 1000\<rparr>"
  let ?f = "\<lambda>t. \<lparr>faceLandmarks = [face (1 / 2) (1 / 2) 1], blinkNow = t, dwellNow = t\<rparr>"
  let ?g = "\<lparr>faceLandmarks = [face (1 / 2) (1 / 2) 0], blinkNow = 1000, dwellNow = 1000\<rparr>"
  have r: "snd (predictWebcam ?s (?f t)) = Some (the (snd (predictWebcam ?s (?f t))))"
    and b: "\<not> isBlinking (the (snd (predictWebcam ?s (?f t))))" for t
    by (simp_all add: eval_defs)
  have r': "snd (predictWebcam (initialService None 0) ?g)
              = Some (the (snd (predictWebcam (initialService None 0) ?g)))"
    and b': "isBlinking (the (snd (predictWebcam (initialService None 0) ?g)))"
    by (simp_all add: eval_defs)
  have m: "map_option didBlink (snd (predictWebcam ?s (?f t)))
             = Some (didBlink (the (snd (predictWebcam ?s (?f t)))))" for t
    using r [of t] by (metis option.map(2))
  have s: "blinkStartTime ?s = 1000" "blinkStartTime (initialService None 0) = - 1"
    by (simp_all add: initialService_def)
  show ?thesis
    unfolding m
    using blink_event [OF r [of 1150]] blink_event [OF r [of 1050]] blink_event [OF r [of 1350]]
      blink_event [OF r'] b [of 1150] b [of 1050] b [of 1350] b'
    by (simp add: s)
qed

section \<open>The dwell detector\<close>

lemma dwellDetection_cases:
  "dwellDetection s1 now =
     (if jgt (dist' \<lparr>px = cursorX s1, py = cursorY s1\<rparr> (dwellAnchor s1)) DWELL_RADIUS then
        (s1\<lparr>dwellAnchor := \<lparr>px = cursorX s1, py = cursorY s1\<rparr>, dwellStartTime := now,
            hasTriggeredDwell := False\<rparr>, 0, False)
      else if hasTriggeredDwell s1 then (s1, 0, False)
      else if DWELL_DURATION \<le> now - dwellStartTime s1 then (s1\<lparr>hasTriggeredDwell := True\<rparr>, 0, True)
      else (s1, min 1 ((now - dwellStartTime s1) / DWELL_DURATION), False))"
  by (simp add: dwellDetection_def dist'_def Let_def)

text \<open>
  In a frame with a face, the dwell fields of the new state and of the result are those the
  dwell step computes on the cursor just filtered, which is the cursor of the result.
\<close>

lemma predictWebcam_dwell:
  assumes "snd (predictWebcam s f) = Some r"
  shows "\<exists>s1. dwellAnchor s1 = dwellAnchor s \<and> dwellStartTime s1 = dwellStartTime s
            \<and> hasTriggeredDwell s1 = hasTriggeredDwell s
            \<and> cursor r = \<lparr>px = cursorX s1, py = cursorY s1\<rparr>
            \<and> fst (predictWebcam s f) = fst (dwellDetection s1 (dwellNow f))
            \<and> dwellProgress r = fst (snd (dwellDetection s1 (dwellNow f)))
            \<and> didDwell r = snd (snd (dwellDetection s1 (dwellNow f)))"
proof (cases "faceLandmarks f")
  case Nil
  with assms show ?thesis by (simp add: predictWebcam_def)
next
  case (Cons landmarks rest)
  define tgt where "tgt = mapToScreen (calibration s) (px (landmarks 1)) (py (landmarks 1))"
  define sm where "sm = adaptiveSmoothing (cursorX s) (cursorY s) (fst tgt) (snd tgt)"
  define bl where "bl = blinkDetection (blinkStartTime s)
      (jlt (jdiv (jadd (calculateEAR landmarks [33, 160, 158, 133, 153, 144])
                       (calculateEAR landmarks [362, 385, 387, 263, 373, 380])) (Fin 2))
           BLINK_THRESHOLD) (blinkNow f)"
  define s1 where "s1 = s\<lparr>cursorX := fst sm, cursorY := snd sm, blinkStartTime := fst bl\<rparr>"
  have "dwellAnchor s1 = dwellAnchor s" "dwellStartTime s1 = dwellStartTime s"
    "hasTriggeredDwell s1 = hasTriggeredDwell s"
    by (simp_all add: s1_def)
  moreover have "cursor r = \<lparr>px = cursorX s1, py = cursorY s1\<rparr>"
    "fst (predictWebcam s f) = fst (dwellDetection s1 (dwellNow f))"
    "dwellProgress r = fst (snd (dwellDetection s1 (dwellNow f)))"
    "didDwell r = snd (snd (dwellDetection s1 (dwellNow f)))"
    using assms Cons
    by (auto simp: predictWebcam_def Let_def split_beta dwellDetection_keeps s1_def sm_def tgt_def
        bl_def simp del: One_nat_def)
  ultimately show ?thesis by blast
qed

text \<open>One frame with a face, its filtered cursor outside or inside the radius.\<close>

lemma predictWebcam_dwell_step:
  assumes "snd (predictWebcam s f) = Some r"
  shows "if jgt (dist' (cursor r) (dwellAnchor s)) DWELL_RADIUS then
           dwellAnchor (fst (predictWebcam s f)) = cursor r
           \<and> dwellStartTime (fst (predictWebcam s f)) = dwellNow f
           \<and> \<not> hasTriggeredDwell (fst (predictWebcam s f))
           \<and> \<not> didDwell r \<and> dwellProgress r = 0
         else
           dwellAnchor (fst (predictWebcam s f)) = dwellAnchor s
           \<and> dwellStartTime (fst (predictWebcam s f)) = dwellStartTime s
           \<and> hasTriggeredDwell (fst (predictWebcam s f)) =
               (hasTriggeredDwell s \<or> DWELL_DURATION \<le> dwellNow f - dwellStartTime s)
           \<and> didDwell r = (\<not> hasTriggeredDwell s \<and> DWELL_DURATION \<le> dwellNow f - dwellStartTime s)
           \<and> (didDwell r \<longrightarrow> dwellProgress r = 0)"
proof -
  from predictWebcam_dwell [OF assms] obtain s1
    where "dwellAnchor s1 = dwellAnchor s" "dwellStartTime s1 = dwellStartTime s"
      "hasTriggeredDwell s1 = hasTriggeredDwell s"
      "cursor r = \<lparr>px = cursorX s1, py = cursorY s1\<rparr>"
      "fst (predictWebcam s f) = fst (dwellDetection s1 (dwellNow f))"
      "dwellProgress r = fst (snd (dwellDetection s1 (dwellNow f)))"
      "didDwell r = snd (snd (dwellDetection s1 (dwellNow f)))"
    by blast
  then show ?thesis by (simp add: dwellDetection_cases)
qed

lemma predictWebcam_no_face:
  "faceLandmarks f = [] \<Longrightarrow> predictWebcam s f = (s, None)"
  by (simp add: predictWebcam_def)

lemma predictWebcam_face:
  "faceLandmarks f \<noteq> [] \<Longrightarrow> \<exists>r. snd (predictWebcam s f) = Some r"
  by (cases "faceLandmarks f") (simp_all add: predictWebcam_def Let_def split_beta)

text \<open>Once the event has fired, frames inside the radius are silent and keep the detector.\<close>

lemma webcam_stay_triggered:
  assumes "hasTriggeredDwell s"
    and "\<forall>v. Some v \<in> set (webcamResults s fs)
           \<longrightarrow> \<not> jgt (dist' (cursor v) (dwellAnchor s)) DWELL_RADIUS"
  shows "(\<forall>r \<in> set (webcamResults s fs). map_option didDwell r \<noteq> Some True)
       \<and> hasTriggeredDwell (runFrames s fs)
       \<and> dwellAnchor (runFrames s fs) = dwellAnchor s
       \<and> dwellStartTime (runFrames s fs) = dwellStartTime s"
  using assms
proof (induction fs arbitrary: s)
  case Nil
  then show ?case by simp
next
  case (Cons f fs)
  let ?s' = "fst (predictWebcam s f)"
  have head: "map_option didDwell (snd (predictWebcam s f)) \<noteq> Some True
              \<and> hasTriggeredDwell ?s' \<and> dwellAnchor ?s' = dwellAnchor s
              \<and> dwellStartTime ?s' = dwellStartTime s"
  proof (cases "snd (predictWebcam s f)")
    case None
    then have "faceLandmarks f = []" using predictWebcam_face [of f s] by auto
    then show ?thesis using Cons.prems(1) by (simp add: predictWebcam_no_face)
  next
    case (Some r)
    then have "\<not> jgt (dist' (cursor r) (dwellAnchor s)) DWELL_RADIUS"
      using Cons.prems(2) by simp
    with predictWebcam_dwell_step [OF Some] Cons.prems(1) show ?thesis
      by (simp add: Some)
  qed
  have "(\<forall>r \<in> set (webcamResults ?s' fs). map_option didDwell r \<noteq> Some True)
       \<and> hasTriggeredDwell (runFrames ?s' fs)
       \<and> dwellAnchor (runFrames ?s' fs) = dwellAnchor ?s'
       \<and> dwellStartTime (runFrames ?s' fs) = dwellStartTime ?s'"
    using head Cons.prems(2) by (intro Cons.IH) simp_all
  with head show ?case by simp
qed

lemma length_webcamResults: "length (webcamResults s fs) = length fs"
  by (induction fs arbitrary: s) simp_all

text \<open>
  Before the event has fired, over frames whose filtered cursor stays inside the radius: the
  event sits at the first frame with a face whose elapsed time reaches the duration, and
  nowhere else.
\<close>

lemma webcam_stay_untriggered:
  assumes "\<not> hasTriggeredDwell s"
    and "\<forall>v. Some v \<in> set (webcamResults s fs)
           \<longrightarrow> \<not> jgt (dist' (cursor v) (dwellAnchor s)) DWELL_RADIUS"
  shows "(\<forall>i < length fs. map_option didDwell (webcamResults s fs ! i) = Some True \<longleftrightarrow>
             (faceLandmarks (fs ! i) \<noteq> []
              \<and> DWELL_DURATION \<le> dwellNow (fs ! i) - dwellStartTime s
              \<and> (\<forall>j < i. faceLandmarks (fs ! j) \<noteq> []
                     \<longrightarrow> dwellNow (fs ! j) - dwellStartTime s < DWELL_DURATION)))
       \<and> (\<forall>i < length fs. map_option didDwell (webcamResults s fs ! i) = Some True
             \<longrightarrow> map_option dwellProgress (webcamResults s fs ! i) = Some 0)
       \<and> (hasTriggeredDwell (runFrames s fs) \<longleftrightarrow>
             (\<exists>i < length fs. faceLandmarks (fs ! i) \<noteq> []
                \<and> DWELL_DURATION \<le> dwellNow (fs ! i) - dwellStartTime s))
       \<and> length (filter (\<lambda>r. map_option didDwell r = Some True) (webcamResults s fs)) =
             (if \<exists>i < length fs. faceLandmarks (fs ! i) \<noteq> []
                   \<and> DWELL_DURATION \<le> dwellNow (fs ! i) - dwellStartTime s
              then 1 else 0)
       \<and> dwellAnchor (runFrames s fs) = dwellAnchor s
       \<and> dwellStartTime (runFrames s fs) = dwellStartTime s"
  using assms
proof (induction fs arbitrary: s)
  case Nil
  then show ?case by simp
next
  case (Cons f fs)
  let ?s' = "fst (predictWebcam s f)"
  let ?h = "snd (predictWebcam s f)"
  let ?ev = "\<lambda>r. map_option didDwell r = Some True"
  have tail_in: "\<forall>v. Some v \<in> set (webcamResults ?s' fs)
           \<longrightarrow> \<not> jgt (dist' (cursor v) (dwellAnchor s)) DWELL_RADIUS"
    using Cons.prems(2) by simp
  show ?case
  proof (cases "faceLandmarks f \<noteq> [] \<and> DWELL_DURATION \<le> dwellNow f - dwellStartTime s")
    case True
    then obtain r where r: "?h = Some r" using predictWebcam_face [of f s] by blast
    then have "\<not> jgt (dist' (cursor r) (dwellAnchor s)) DWELL_RADIUS"
      using Cons.prems(2) by simp
    with predictWebcam_dwell_step [OF r] Cons.prems(1) True
    have head: "didDwell r" "dwellProgress r = 0" "hasTriggeredDwell ?s'"
      "dwellAnchor ?s' = dwellAnchor s" "dwellStartTime ?s' = dwellStartTime s"
      by simp_all
    have tail: "(\<forall>r \<in> set (webcamResults ?s' fs). map_option didDwell r \<noteq> Some True)
       \<and> hasTriggeredDwell (runFrames ?s' fs)
       \<and> dwellAnchor (runFrames ?s' fs) = dwellAnchor ?s'
       \<and> dwellStartTime (runFrames ?s' fs) = dwellStartTime ?s'"
      using head tail_in by (intro webcam_stay_triggered) simp_all
    have quiet: "\<not> ?ev (webcamResults ?s' fs ! k)" if "k < length fs" for k
    proof -
      have "webcamResults ?s' fs ! k \<in> set (webcamResults ?s' fs)"
        using that by (simp add: length_webcamResults)
      with tail show ?thesis by blast
    qed
    have ex: "\<exists>i < length (f # fs). faceLandmarks ((f # fs) ! i) \<noteq> []
                \<and> DWELL_DURATION \<le> dwellNow ((f # fs) ! i) - dwellStartTime s"
      using True by (intro exI [of _ 0]) simp
    have a: "?ev (webcamResults s (f # fs) ! i) \<longleftrightarrow>
             (faceLandmarks ((f # fs) ! i) \<noteq> []
              \<and> DWELL_DURATION \<le> dwellNow ((f # fs) ! i) - dwellStartTime s
              \<and> (\<forall>j < i. faceLandmarks ((f # fs) ! j) \<noteq> []
                     \<longrightarrow> dwellNow ((f # fs) ! j) - dwellStartTime s < DWELL_DURATION))"
      if "i < length (f # fs)" for i
    proof (cases i)
      case 0
      then show ?thesis using True head by (simp add: r)
    next
      case (Suc k)
      then have "\<not> ?ev (webcamResults ?s' fs ! k)" using quiet that by simp
      moreover have "\<not> (\<forall>j < Suc k. faceLandmarks ((f # fs) ! j) \<noteq> []
                     \<longrightarrow> dwellNow ((f # fs) ! j) - dwellStartTime s < DWELL_DURATION)"
        using True by (auto intro!: exI [of _ 0])
      ultimately show ?thesis unfolding Suc by (metis nth_Cons_Suc webcamResults.simps(2))
    qed
    have b: "?ev (webcamResults s (f # fs) ! i)
               \<longrightarrow> map_option dwellProgress (webcamResults s (f # fs) ! i) = Some 0"
      if "i < length (f # fs)" for i
    proof (cases i)
      case 0
      then show ?thesis using head by (simp add: r)
    next
      case (Suc k)
      then show ?thesis using quiet [of k] that by auto
    qed
    have c: "hasTriggeredDwell (runFrames s (f # fs))" using tail by simp
    have "filter ?ev (webcamResults ?s' fs) = []"
      using tail by (simp add: filter_empty_conv)
    then have d: "length (filter ?ev (webcamResults s (f # fs))) = 1"
      using head by (simp add: r)
    have e: "dwellAnchor (runFrames s (f # fs)) = dwellAnchor s"
      "dwellStartTime (runFrames s (f # fs)) = dwellStartTime s"
      using tail head by simp_all
    show ?thesis using a b c d e ex by presburger
  next
    case False
    have head: "\<not> ?ev ?h \<and> \<not> hasTriggeredDwell ?s' \<and> dwellAnchor ?s' = dwellAnchor s
                \<and> dwellStartTime ?s' = dwellStartTime s"
    proof (cases ?h)
      case None
      then have "faceLandmarks f = []" using predictWebcam_face [of f s] by auto
      then show ?thesis using Cons.prems(1) by (simp add: predictWebcam_no_face)
    next
      case (Some r)
      then have face: "faceLandmarks f \<noteq> []" by (auto simp: predictWebcam_no_face)
      have "\<not> jgt (dist' (cursor r) (dwellAnchor s)) DWELL_RADIUS"
        using Cons.prems(2) Some by simp
      with predictWebcam_dwell_step [OF Some] Cons.prems(1) False face show ?thesis
        by (simp add: Some)
    qed
    have q0: "faceLandmarks f \<noteq> [] \<longrightarrow> dwellNow f - dwellStartTime s < DWELL_DURATION"
      using False by auto
    have IH: "(\<forall>i < length fs. ?ev (webcamResults ?s' fs ! i) \<longleftrightarrow>
             (faceLandmarks (fs ! i) \<noteq> []
              \<and> DWELL_DURATION \<le> dwellNow (fs ! i) - dwellStartTime ?s'
              \<and> (\<forall>j < i. faceLandmarks (fs ! j) \<noteq> []
                     \<longrightarrow> dwellNow (fs ! j) - dwellStartTime ?s' < DWELL_DURATION)))
       \<and> (\<forall>i < length fs. ?ev (webcamResults ?s' fs ! i)
             \<longrightarrow> map_option dwellProgress (webcamResults ?s' fs ! i) = Some 0)
       \<and> (hasTriggeredDwell (runFrames ?s' fs) \<longleftrightarrow>
             (\<exists>i < length fs. faceLandmarks (fs ! i) \<noteq> []
                \<and> DWELL_DURATION \<le> dwellNow (fs ! i) - dwellStartTime ?s'))
       \<and> length (filter ?ev (webcamResults ?s' fs)) =
             (if \<exists>i < length fs. faceLandmarks (fs ! i) \<noteq> []
                   \<and> DWELL_DURATION \<le> dwellNow (fs ! i) - dwellStartTime ?s'
              then 1 else 0)
       \<and> dwellAnchor (runFrames ?s' fs) = dwellAnchor ?s'
       \<and> dwellStartTime (runFrames ?s' fs) = dwellStartTime ?s'"
      using head tail_in by (intro Cons.IH) simp_all
    have st: "dwellStartTime ?s' = dwellStartTime s" and an: "dwellAnchor ?s' = dwellAnchor s"
      using head by simp_all
    have ex: "(\<exists>i < length (f # fs). faceLandmarks ((f # fs) ! i) \<noteq> []
                \<and> DWELL_DURATION \<le> dwellNow ((f # fs) ! i) - dwellStartTime s)
              \<longleftrightarrow> (\<exists>i < length fs. faceLandmarks (fs ! i) \<noteq> []
                \<and> DWELL_DURATION \<le> dwellNow (fs ! i) - dwellStartTime s)"
      using False by (auto simp: Ex_less_Suc2)
    have a: "?ev (webcamResults s (f # fs) ! i) \<longleftrightarrow>
             (faceLandmarks ((f # fs) ! i) \<noteq> []
              \<and> DWELL_DURATION \<le> dwellNow ((f # fs) ! i) - dwellStartTime s
              \<and> (\<forall>j < i. faceLandmarks ((f # fs) ! j) \<noteq> []
                     \<longrightarrow> dwellNow ((f # fs) ! j) - dwellStartTime s < DWELL_DURATION))"
      if "i < length (f # fs)" for i
    proof (cases i)
      case 0
      then show ?thesis using head False by auto
    next
      case (Suc k)
      then have "k < length fs" using that by simp
      with IH have "?ev (webcamResults ?s' fs ! k) \<longleftrightarrow>
             (faceLandmarks (fs ! k) \<noteq> []
              \<and> DWELL_DURATION \<le> dwellNow (fs ! k) - dwellStartTime s
              \<and> (\<forall>j < k. faceLandmarks (fs ! j) \<noteq> []
                     \<longrightarrow> dwellNow (fs ! j) - dwellStartTime s < DWELL_DURATION))"
        unfolding st by blast
      then show ?thesis using q0 by (simp add: Suc All_less_Suc2)
    qed
    have b: "?ev (webcamResults s (f # fs) ! i)
               \<longrightarrow> map_option dwellProgress (webcamResults s (f # fs) ! i) = Some 0"
      if "i < length (f # fs)" for i
      using that IH head by (cases i) auto
    have c: "hasTriggeredDwell (runFrames s (f # fs)) \<longleftrightarrow>
             (\<exists>i < length (f # fs). faceLandmarks ((f # fs) ! i) \<noteq> []
                \<and> DWELL_DURATION \<le> dwellNow ((f # fs) ! i) - dwellStartTime s)"
    proof -
      have "hasTriggeredDwell (runFrames ?s' fs) \<longleftrightarrow>
             (\<exists>i < length fs. faceLandmarks (fs ! i) \<noteq> []
                \<and> DWELL_DURATION \<le> dwellNow (fs ! i) - dwellStartTime s)"
        using IH unfolding st by blast
      then show ?thesis by (simp only: ex runFrames.simps)
    qed
    have d: "length (filter ?ev (webcamResults s (f # fs))) =
             (if \<exists>i < length (f # fs). faceLandmarks ((f # fs) ! i) \<noteq> []
                   \<and> DWELL_DURATION \<le> dwellNow ((f # fs) ! i) - dwellStartTime s
              then 1 else 0)"
    proof -
      have cnt: "length (filter ?ev (webcamResults ?s' fs)) =
             (if \<exists>i < length fs. faceLandmarks (fs ! i) \<noteq> []
                   \<and> DWELL_DURATION \<le> dwellNow (fs ! i) - dwellStartTime s
              then 1 else 0)"
        using IH unfolding st by blast
      have "\<not> ?ev ?h" using head by blast
      then have "filter ?ev (webcamResults s (f # fs)) = filter ?ev (webcamResults ?s' fs)"
        by simp
      then show ?thesis by (simp only: ex cnt)
    qed
    have e: "dwellAnchor (runFrames s (f # fs)) = dwellAnchor s"
      "dwellStartTime (runFrames s (f # fs)) = dwellStartTime s"
      using IH st an by simp_all
    show ?thesis using a b c d e by presburger
  qed
qed

text \<open>
  Claim C5: take a service whose dwell event has not fired, and frames in which the filtered
  cursor that \<open>predictWebcam\<close> reports stays within the radius 0.04 of the anchor. Then
  \<open>didDwell\<close> is reported at the first frame (with a face) whose elapsed time reaches 600 ms,
  and at no other frame, so once if there is such a frame and never otherwise; that frame
  reports progress 0, and the flag is set from then on, so that nothing fires again while the
  cursor stays. A following frame whose cursor is outside the radius reports no event and
  progress 0, moves the anchor to the cursor, restarts the timer at its clock and clears the
  flag.
\<close>

theorem dwell_fires_once_per_stay:
  assumes "\<not> hasTriggeredDwell s"
    and "\<forall>v. Some v \<in> set (webcamResults s fs)
           \<longrightarrow> \<not> jgt (dist' (cursor v) (dwellAnchor s)) (Fin 0.04)"
    and "snd (predictWebcam (runFrames s fs) g) = Some e"
    and "jgt (dist' (cursor e) (dwellAnchor s)) (Fin 0.04)"
  shows "(\<forall>i < length fs. map_option didDwell (webcamResults s fs ! i) = Some True \<longleftrightarrow>
             (faceLandmarks (fs ! i) \<noteq> []
              \<and> 600 \<le> dwellNow (fs ! i) - dwellStartTime s
              \<and> (\<forall>j < i. faceLandmarks (fs ! j) \<noteq> []
                     \<longrightarrow> dwellNow (fs ! j) - dwellStartTime s < 600)))
       \<and> (\<forall>i < length fs. map_option didDwell (webcamResults s fs ! i) = Some True
             \<longrightarrow> map_option dwellProgress (webcamResults s fs ! i) = Some 0)
       \<and> length (filter (\<lambda>r. map_option didDwell r = Some True) (webcamResults s fs)) =
             (if \<exists>i < length fs. faceLandmarks (fs ! i) \<noteq> []
                   \<and> 600 \<le> dwellNow (fs ! i) - dwellStartTime s
              then 1 else 0)
       \<and> (hasTriggeredDwell (runFrames s fs) \<longleftrightarrow>
             (\<exists>i < length fs. faceLandmarks (fs ! i) \<noteq> []
                \<and> 600 \<le> dwellNow (fs ! i) - dwellStartTime s))
       \<and> \<not> didDwell e \<and> dwellProgress e = 0
       \<and> dwellAnchor (fst (predictWebcam (runFrames s fs) g)) = cursor e
       \<and> dwellStartTime (fst (predictWebcam (runFrames s fs) g)) = dwellNow g
       \<and> \<not> hasTriggeredDwell (fst (predictWebcam (runFrames s fs) g))"
proof -
  have ins: "\<forall>v. Some v \<in> set (webcamResults s fs)
           \<longrightarrow> \<not> jgt (dist' (cursor v) (dwellAnchor s)) DWELL_RADIUS"
    using assms(2) by (simp add: DWELL_RADIUS_def)
  note stay = webcam_stay_untriggered [OF assms(1) ins, unfolded DWELL_DURATION_def]
  have "jgt (dist' (cursor e) (dwellAnchor (runFrames s fs))) DWELL_RADIUS"
    using assms(4) stay by (simp add: DWELL_RADIUS_def)
  with predictWebcam_dwell_step [OF assms(3)]
  have leave: "\<not> didDwell e \<and> dwellProgress e = 0
       \<and> dwellAnchor (fst (predictWebcam (runFrames s fs) g)) = cursor e
       \<and> dwellStartTime (fst (predictWebcam (runFrames s fs) g)) = dwellNow g
       \<and> \<not> hasTriggeredDwell (fst (predictWebcam (runFrames s fs) g))"
    by simp
  show ?thesis using stay leave by blast
qed

text \<open>
  With no profile and the nose held at the centre, the cursor rests on the anchor: frames
  300, 650 and 700 ms after the timer started report one event, at 650 ms. A frame at 800 ms
  with the nose at the bottom moves the cursor to 0.75, outside the radius, and re-arms the
  detector.
\<close>

theorem dwell_fires_once_per_stay_witness:
  "map (map_option didDwell) (webcamResults (initialService None 0)
       [\<lparr>faceLandmarks = [face (1 / 2) (1 / 2) 1], blinkNow = 300, dwellNow = 300\<rparr>,
        \<lparr>faceLandmarks = [face (1 / 2) (1 / 2) 1], blinkNow = 650, dwellNow = 650\<rparr>,
        \<lparr>faceLandmarks = [face (1 / 2) (1 / 2) 1], blinkNow = 700, dwellNow = 700\<rparr>])
     = [Some False, Some True, Some False]
   \<and> length (filter (\<lambda>r. map_option didDwell r = Some True) (webcamResults (initialService None 0)
       [\<lparr>faceLandmarks = [face (1 / 2) (1 / 2) 1], blinkNow = 300, dwellNow = 300\<rparr>,
        \<lparr>faceLandmarks = [face (1 / 2) (1 / 2) 1], blinkNow = 650, dwellNow = 650\<rparr>,
        \<lparr>faceLandmarks = [face (1 / 2) (1 / 2) 1], blinkNow = 700, dwellNow = 700\<rparr>])) = 1
   \<and> hasTriggeredDwell (runFrames (initialService None 0)
       [\<lparr>faceLandmarks = [face (1 / 2) (1 / 2) 1], blinkNow = 300, dwellNow = 300\<rparr>,
        \<lparr>faceLandmarks = [face (1 / 2) (1 / 2) 1], blinkNow = 650, dwellNow = 650\<rparr>,
        \<lparr>faceLandmarks = [face (1 / 2) (1 / 2) 1], blinkNow = 700, dwellNow = 700\<rparr>])
   \<and> \<not> hasTriggeredDwell (fst (predictWebcam (runFrames (initialService None 0)
       [\<lparr>faceLandmarks = [face (1 / 2) (1 / 2) 1], blinkNow = 300, dwellNow = 300\<rparr>,
        \<lparr>faceLandmarks = [face (1 / 2) (1 / 2) 1], blinkNow = 650, dwellNow = 650\<rparr>,
        \<lparr>faceLandmarks = [face (1 / 2) (1 / 2) 1], blinkNow = 700, dwellNow = 700\<rparr>])
       \<lparr>faceLandmarks = [face (1 / 2) (9 / 10) 1], blinkNow = 800, dwellNow = 800\<rparr>))
   \<and> dwellStartTime (fst (predictWebcam (runFrames (initialService None 0)
       [\<lparr>faceLandmarks = [face (1 / 2) (1 / 2) 1], blinkNow = 300, dwellNow = 300\<rparr>,
        \<lparr>faceLandmarks = [face (1 / 2) (1 / 2) 1], blinkNow = 650, dwellNow = 650\<rparr>,
        \<lparr>faceLandmarks = [face (1 / 2) (1 / 2) 1], blinkNow = 700, dwellNow = 700\<rparr>])
       \<lparr>faceLandmarks = [face (1 / 2) (9 / 10) 1], blinkNow = 800, dwellNow = 800\<rparr>)) = 800"
proof -
  let ?s = "initialService None 0"
  let ?f = "\<lambda>t. \<lparr>faceLandmarks = [face (1 / 2) (1 / 2) 1], blinkNow = t, dwellNow = t\<rparr>"
  let ?fs = "[?f 300, ?f 650, ?f 700]"
  let ?g = "\<lparr>faceLandmarks = [face (1 / 2) (9 / 10) 1], blinkNow = 800, dwellNow = 800\<rparr>"
  let ?e = "the (snd (predictWebcam (runFrames ?s ?fs) ?g))"
  have sq: "sqrt (1 / 4) = 1 / 2" "sqrt (1 / 16) = 1 / 4"
    by (rule real_sqrt_unique; simp add: power2_eq_square)+
  have h1: "\<not> hasTriggeredDwell ?s" by (simp add: initialService_def)
  have h2: "\<forall>v. Some v \<in> set (webcamResults ?s ?fs)
              \<longrightarrow> \<not> jgt (dist' (cursor v) (dwellAnchor ?s)) (Fin 0.04)"
    by (simp add: eval_defs)
  have h3: "snd (predictWebcam (runFrames ?s ?fs) ?g) = Some ?e"
    by (simp add: eval_defs)
  have h4: "jgt (dist' (cursor ?e) (dwellAnchor ?s)) (Fin 0.04)"
    by (simp add: eval_defs sq)
  have ex: "\<exists>i < length ?fs. faceLandmarks (?fs ! i) \<noteq> []
              \<and> 600 \<le> dwellNow (?fs ! i) - dwellStartTime ?s"
    by (intro exI [of _ 1]) (simp add: initialService_def)
  have ev: "map (map_option didDwell) (webcamResults ?s ?fs) = [Some False, Some True, Some False]"
    by (simp add: eval_defs)
  from dwell_fires_once_per_stay [OF h1 h2 h3 h4] ex
  have "length (filter (\<lambda>r. map_option didDwell r = Some True) (webcamResults ?s ?fs)) = 1"
    and "hasTriggeredDwell (runFrames ?s ?fs)"
    and "\<not> hasTriggeredDwell (fst (predictWebcam (runFrames ?s ?fs) ?g))"
    and "dwellStartTime (fst (predictWebcam (runFrames ?s ?fs) ?g)) = dwellNow ?g"
    by presburger+
  with ev show ?thesis by simp
qed

section \<open>The calibration engine\<close>

text \<open>
  Claim C8: let raw and screen coordinates be tied by \<open>raw = start + screen (end - start)\<close>
  with \<open>end \<noteq> start\<close> on both axes, and let the four measurements be the raw points of the
  four screen targets. Then \<open>computeCalibration\<close> returns exactly the bounds \<open>start\<close> and \<open>end\<close>
  of each axis, and the mapper under that profile sends each measurement back to its screen
  target. On exact reals the recovery is exact, hence within any tolerance.
\<close>

theorem calibration_round_trip:
  assumes "xe \<noteq> xs" and "ye \<noteq> ys"
  shows "computeCalibration (map (affineRaw xs xe ys ye) POINTS) =
           Some \<lparr>cal_x = \<lparr>start = Fin xs, end' = Fin xe\<rparr>,
                 cal_y = \<lparr>start = Fin ys, end' = Fin ye\<rparr>\<rparr>
       \<and> map (\<lambda>raw. mapToScreen (computeCalibration (map (affineRaw xs xe ys ye) POINTS))
                       (px raw) (py raw))
            (map (affineRaw xs xe ys ye) POINTS)
         = map (\<lambda>(sx, sy). (Fin sx, Fin sy)) POINTS"
proof -
  have cal: "computeCalibration (map (affineRaw xs xe ys ye) POINTS) =
           Some \<lparr>cal_x = \<lparr>start = Fin xs, end' = Fin xe\<rparr>,
                 cal_y = \<lparr>start = Fin ys, end' = Fin ye\<rparr>\<rparr>"
    by (simp add: computeCalibration_def POINTS_def affineRaw_def Let_def; intro conjI; argo)
  have m: "mapToScreen (Some \<lparr>cal_x = \<lparr>start = Fin xs, end' = Fin xe\<rparr>,
                               cal_y = \<lparr>start = Fin ys, end' = Fin ye\<rparr>\<rparr>)
             (Fin (xs + k * (xe - xs))) (Fin (ys + l * (ye - ys)))
           = (Fin (max 0 (min 1 k)), Fin (max 0 (min 1 l)))"
    for k l using assms by (simp add: mapToScreen_def)
  show ?thesis
    apply (simp only: cal)
    apply (simp only: POINTS_def affineRaw_def list.map fst_conv snd_conv Point.select_convs m)
    apply simp
    done
qed

text \<open>A user whose raw horizontal axis runs backwards, from 0.7 down to 0.3.\<close>

theorem calibration_round_trip_witness:
  "computeCalibration (map (affineRaw (7 / 10) (3 / 10) (2 / 5) (3 / 5)) POINTS) =
     Some \<lparr>cal_x = \<lparr>start = Fin (7 / 10), end' = Fin (3 / 10)\<rparr>,
           cal_y = \<lparr>start = Fin (2 / 5), end' = Fin (3 / 5)\<rparr>\<rparr>
   \<and> map (\<lambda>raw. mapToScreen (computeCalibration (map (affineRaw (7 / 10) (3 / 10) (2 / 5) (3 / 5)) POINTS))
                       (px raw) (py raw))
        (map (affineRaw (7 / 10) (3 / 10) (2 / 5) (3 / 5)) POINTS)
       = [(Fin (1 / 10), Fin (1 / 10)), (Fin (9 / 10), Fin (1 / 10)),
          (Fin (9 / 10), Fin (9 / 10)), (Fin (1 / 10), Fin (9 / 10))]"
proof -
  have pts: "map (\<lambda>(sx, sy). (Fin sx, Fin sy)) POINTS =
          [(Fin (1 / 10), Fin (1 / 10)), (Fin (9 / 10), Fin (1 / 10)),
           (Fin (9 / 10), Fin (9 / 10)), (Fin (1 / 10), Fin (9 / 10))]"
    by (simp add: POINTS_def)
  have ne: "(3 / 10 :: real) \<noteq> 7 / 10" "(3 / 5 :: real) \<noteq> 2 / 5" by simp_all
  from calibration_round_trip [OF ne, unfolded pts] show ?thesis .
qed

section \<open>The gesture arbitrator\<close>

text \<open>
  Claim C2: when the timeout fires, the callback reads the blink count and resets it to 0.
  With a count of 2 and an active app it closes the app; with a count of 1, no active app and a
  captured target it opens that target; in every other case (count 0, count 3 or more, count 2
  with no active app, count 1 with an active app or with no captured target) it neither opens
  nor closes anything and the active app is left as it is.
\<close>

theorem blink_sequence_decision:
  "blinkCount (fst (blinkSequenceFinished s)) = 0
   \<and> snd (blinkSequenceFinished s) =
       (if blinkCount s = 2 \<and> truthy (activeApp s) then Some CloseApp
        else if blinkCount s = 1 \<and> \<not> truthy (activeApp s) \<and> truthy (firstBlinkHitRef s)
          then map_option OpenApp (firstBlinkHitRef s)
        else None)
   \<and> activeApp (fst (blinkSequenceFinished s)) =
       (if blinkCount s = 2 \<and> truthy (activeApp s) then None
        else if blinkCount s = 1 \<and> \<not> truthy (activeApp s) \<and> truthy (firstBlinkHitRef s)
          then firstBlinkHitRef s
        else activeApp s)"
  by (auto simp: blinkSequenceFinished_def openApp_def truthy_def Let_def split: option.splits)

text \<open>
  With the mail app active: two blinks close it, three blinks do nothing. With no app active
  and the mail icon captured: one blink opens it, two blinks do nothing.
\<close>

theorem blink_sequence_decision_witness:
  "snd (blinkSequenceFinished (initialApp\<lparr>status := ACTIVE, activeApp := Some ''mail'', blinkCount := 2\<rparr>))
     = Some CloseApp
   \<and> snd (blinkSequenceFinished (initialApp\<lparr>status := ACTIVE, activeApp := Some ''mail'', blinkCount := 3\<rparr>))
     = None
   \<and> snd (blinkSequenceFinished
        (initialApp\<lparr>status := ACTIVE, firstBlinkHitRef := Some ''mail'', blinkCount := 1\<rparr>))
     = Some (OpenApp ''mail'')
   \<and> snd (blinkSequenceFinished
        (initialApp\<lparr>status := ACTIVE, firstBlinkHitRef := Some ''mail'', blinkCount := 2\<rparr>))
     = None
   \<and> blinkCount (fst (blinkSequenceFinished
        (initialApp\<lparr>status := ACTIVE, activeApp := Some ''mail'', blinkCount := 3\<rparr>))) = 0"
  using blink_sequence_decision [of "initialApp\<lparr>status := ACTIVE, activeApp := Some ''mail'', blinkCount := 2\<rparr>"]
    blink_sequence_decision [of "initialApp\<lparr>status := ACTIVE, activeApp := Some ''mail'', blinkCount := 3\<rparr>"]
    blink_sequence_decision [of "initialApp\<lparr>status := ACTIVE, firstBlinkHitRef := Some ''mail'', blinkCount := 1\<rparr>"]
    blink_sequence_decision [of "initialApp\<lparr>status := ACTIVE, firstBlinkHitRef := Some ''mail'', blinkCount := 2\<rparr>"]
  by (simp add: initialApp_def truthy_def)

lemma processVisionResult_firstHit:
  "firstBlinkHitRef (fst (processVisionResult now s r)) =
     (if didBlink r \<and> status s \<noteq> CALIBRATING \<and> blinkCount s = 0 then hitTest s (cursor r)
      else firstBlinkHitRef s)"
  by (auto simp: processVisionResult_def openApp_def Let_def split_beta split: option.splits)

lemma processVisionResult_count:
  "blinkCount (fst (processVisionResult now s r)) =
     (if didBlink r \<and> status s \<noteq> CALIBRATING then blinkCount s + 1 else blinkCount s)"
  by (auto simp: processVisionResult_def openApp_def Let_def split_beta split: option.splits)

lemma processFrames_keeps_firstHit:
  "1 \<le> blinkCount s \<Longrightarrow>
     firstBlinkHitRef (processFrames s rs) = firstBlinkHitRef s
     \<and> 1 \<le> blinkCount (processFrames s rs)"
proof (induction rs arbitrary: s)
  case Nil
  then show ?case by simp
next
  case (Cons p rs)
  obtain now r where p: "p = (now, r)" by (cases p)
  have "1 \<le> blinkCount (fst (processVisionResult now s r))"
    and "firstBlinkHitRef (fst (processVisionResult now s r)) = firstBlinkHitRef s"
    using Cons.prems by (simp_all add: processVisionResult_count processVisionResult_firstHit)
  with Cons.IH [of "fst (processVisionResult now s r)"] show ?case by (simp add: p)
qed

lemma blinkSequenceFinished_opens:
  "snd (blinkSequenceFinished s) = Some (OpenApp appId) \<Longrightarrow> firstBlinkHitRef s = Some appId"
  by (auto simp: blinkSequenceFinished_def openApp_def Let_def split: if_splits option.splits)

text \<open>
  Claim C9: the frame callback writes the captured target exactly when a blink takes the count
  from 0 to 1, and the timeout callback never writes it. So after the first blink of a
  sequence, whatever frames follow before the timeout fires (further blinks, cursor motion),
  the captured target is still the hit under the cursor at that first blink, and an app
  opened by the timeout is that one.
\<close>

theorem first_blink_commits_target:
  assumes "blinkCount s = 0" and "didBlink r" and "status s \<noteq> CALIBRATING"
  shows "firstBlinkHitRef (fst (processVisionResult now s r)) = hitTest s (cursor r)
       \<and> blinkCount (fst (processVisionResult now s r)) = 1
       \<and> firstBlinkHitRef (processFrames (fst (processVisionResult now s r)) rs)
           = hitTest s (cursor r)
       \<and> (\<forall>appId. snd (blinkSequenceFinished (processFrames (fst (processVisionResult now s r)) rs))
                     = Some (OpenApp appId) \<longrightarrow> hitTest s (cursor r) = Some appId)
       \<and> firstBlinkHitRef (fst (processVisionResult now' s' r')) =
           (if didBlink r' \<and> status s' \<noteq> CALIBRATING \<and> blinkCount s' = 0
            then hitTest s' (cursor r') else firstBlinkHitRef s')
       \<and> firstBlinkHitRef (fst (blinkSequenceFinished s')) = firstBlinkHitRef s'"
proof -
  let ?s1 = "fst (processVisionResult now s r)"
  have first: "firstBlinkHitRef ?s1 = hitTest s (cursor r)" and one: "blinkCount ?s1 = 1"
    using assms by (simp_all add: processVisionResult_firstHit processVisionResult_count)
  have keep: "firstBlinkHitRef (processFrames ?s1 rs) = hitTest s (cursor r)"
    using processFrames_keeps_firstHit [of ?s1 rs] first one by simp
  have "hitTest s (cursor r) = Some appId"
    if "snd (blinkSequenceFinished (processFrames ?s1 rs)) = Some (OpenApp appId)" for appId
    using blinkSequenceFinished_opens [OF that] keep by simp
  moreover have "firstBlinkHitRef (fst (blinkSequenceFinished s')) = firstBlinkHitRef s'"
    by (auto simp: blinkSequenceFinished_def openApp_def Let_def split: option.splits)
  ultimately show ?thesis
    using first one keep processVisionResult_firstHit [of now' s' r'] by blast
qed

text \<open>
  A blink over the mail icon, then the cursor moves over the weather icon, where a later frame
  brings no blink: the timeout opens mail. With a second blink over the weather icon the
  captured target is still mail.
\<close>

theorem first_blink_commits_target_witness:
  "snd (blinkSequenceFinished (processFrames
        (fst (processVisionResult 0 (initialApp\<lparr>status := ACTIVE\<rparr>) (resultAt (2 / 5) (1 / 2) True False)))
        [(100, resultAt (3 / 5) (1 / 2) False False)]))
     = Some (OpenApp ''mail'')
   \<and> hitTest (initialApp\<lparr>status := ACTIVE\<rparr>) (cursor (resultAt (2 / 5) (1 / 2) True False))
     = Some ''mail''
   \<and> firstBlinkHitRef (processFrames
        (fst (processVisionResult 0 (initialApp\<lparr>status := ACTIVE\<rparr>) (resultAt (2 / 5) (1 / 2) True False)))
        [(100, resultAt (3 / 5) (1 / 2) True False)])
     = Some ''mail''"
proof -
  let ?s = "initialApp\<lparr>status := ACTIVE\<rparr>"
  let ?r = "resultAt (2 / 5) (1 / 2) True False"
  have h: "blinkCount ?s = 0" "didBlink ?r" "status ?s \<noteq> CALIBRATING"
    by (simp_all add: initialApp_def resultAt_def)
  have hit: "hitTest ?s (cursor ?r) = Some ''mail''"
    by (simp add: hitTest_def initialApp_def resultAt_def truthy_def)
  have opens: "snd (blinkSequenceFinished (processFrames (fst (processVisionResult 0 ?s ?r))
                  [(100, resultAt (3 / 5) (1 / 2) False False)])) = Some (OpenApp ''mail'')"
    by (simp add: blinkSequenceFinished_def processVisionResult_def hitTest_def openApp_def
        initialApp_def resultAt_def truthy_def DOUBLE_BLINK_WINDOW_def Let_def)
  from first_blink_commits_target [OF h, of 0 "[(100, resultAt (3 / 5) (1 / 2) True False)]"]
  have "firstBlinkHitRef (processFrames (fst (processVisionResult 0 ?s ?r))
          [(100, resultAt (3 / 5) (1 / 2) True False)]) = hitTest ?s (cursor ?r)"
    by blast
  with hit opens show ?thesis by simp
qed

text \<open>
  Claim C10: while the status is CALIBRATING a frame only refreshes what the screen shows
  (cursor, raw head, blinking flag, dwell progress, hover). The blink count, the pending
  timeout, the captured target and the active app are unchanged, and nothing is opened or
  closed, whatever events the frame carries.
\<close>

theorem calibrating_frame_no_gesture:
  assumes "status s = CALIBRATING"
  shows "processVisionResult now s r =
           (s\<lparr>ui_cursor := cursor r, ui_rawHead := Some (rawHead r), ui_isBlinking := isBlinking r,
              gestureProgress := dwellProgress r, hoveredAppId := None\<rparr>, None)
       \<and> blinkCount (fst (processVisionResult now s r)) = blinkCount s
       \<and> doubleBlinkTimer (fst (processVisionResult now s r)) = doubleBlinkTimer s
       \<and> firstBlinkHitRef (fst (processVisionResult now s r)) = firstBlinkHitRef s
       \<and> activeApp (fst (processVisionResult now s r)) = activeApp s
       \<and> status (fst (processVisionResult now s r)) = status s"
  using assms by (simp add: processVisionResult_def hitTest_def Let_def)

text \<open>
  A frame over the mail icon carrying both a blink and a dwell event: during calibration it
  leaves the gesture state alone, and once the status is ACTIVE the same frame opens mail and
  counts the blink.
\<close>

theorem calibrating_frame_no_gesture_witness:
  "snd (processVisionResult 0 (initialApp\<lparr>status := CALIBRATING\<rparr>) (resultAt (2 / 5) (1 / 2) True True))
     = None
   \<and> blinkCount (fst (processVisionResult 0 (initialApp\<lparr>status := CALIBRATING\<rparr>)
        (resultAt (2 / 5) (1 / 2) True True))) = 0
   \<and> doubleBlinkTimer (fst (processVisionResult 0 (initialApp\<lparr>status := CALIBRATING\<rparr>)
        (resultAt (2 / 5) (1 / 2) True True))) = None
   \<and> snd (processVisionResult 0 (initialApp\<lparr>status := ACTIVE\<rparr>) (resultAt (2 / 5) (1 / 2) True True))
     = Some (OpenApp ''mail'')
   \<and> blinkCount (fst (processVisionResult 0 (initialApp\<lparr>status := ACTIVE\<rparr>)
        (resultAt (2 / 5) (1 / 2) True True))) = 1
   \<and> doubleBlinkTimer (fst (processVisionResult 0 (initialApp\<lparr>status := ACTIVE\<rparr>)
        (resultAt (2 / 5) (1 / 2) True True))) = Some 600"
proof -
  have c: "status (initialApp\<lparr>status := CALIBRATING\<rparr>) = CALIBRATING" by simp
  have active:
    "snd (processVisionResult 0 (initialApp\<lparr>status := ACTIVE\<rparr>) (resultAt (2 / 5) (1 / 2) True True))
       = Some (OpenApp ''mail'')"
    "blinkCount (fst (processVisionResult 0 (initialApp\<lparr>status := ACTIVE\<rparr>)
        (resultAt (2 / 5) (1 / 2) True True))) = 1"
    "doubleBlinkTimer (fst (processVisionResult 0 (initialApp\<lparr>status := ACTIVE\<rparr>)
        (resultAt (2 / 5) (1 / 2) True True))) = Some 600"
    by (simp_all add: processVisionResult_def hitTest_def openApp_def initialApp_def resultAt_def
        truthy_def DOUBLE_BLINK_WINDOW_def Let_def)
  from calibrating_frame_no_gesture [OF c, of 0 "resultAt (2 / 5) (1 / 2) True True"] active
  show ?thesis by (simp add: initialApp_def)
qed

end
